theory Spec2Isabelle
  imports Complex_Main "HOL-Library.Sublist"
begin

section \<open>Python values used by \<^verbatim>\<open>player_ui.py\<close>\<close>

text \<open>
  The text read from the metadata pipe, file names and directory names are Python
  \<^verbatim>\<open>str\<close> values. They are modelled as \<^typ>\<open>string\<close>, one \<^typ>\<open>char\<close> per code
  point, which covers the code points U+0000 to U+00FF. On that range the regular
  expression class \<^verbatim>\<open>\d\<close> is exactly the ten ASCII digits and \<^verbatim>\<open>.\<close> is every
  character but the line feed. The result of decoding UTF-8 can hold any code point, so
  decoded text is a list of code points. A \<^verbatim>\<open>bytes\<close> value is a list of numbers
  below 256.
\<close>

type_synonym bytes = "nat list"
type_synonym unicode = "nat list"

definition unicode_of :: "string \<Rightarrow> unicode" where
  "unicode_of s = map of_char s"

text \<open>\<^verbatim>\<open>str.isspace\<close> on one character of the modelled range, and \<^verbatim>\<open>str.strip()\<close>.\<close>

definition isspace :: "char \<Rightarrow> bool" where
  "isspace c \<longleftrightarrow> (of_char c :: nat) \<in> set [9, 10, 11, 12, 13, 28, 29, 30, 31, 32, 133, 160]"

definition strip :: "string \<Rightarrow> string" where
  "strip s = rev (dropWhile isspace (rev (dropWhile isspace s)))"

text \<open>\<^verbatim>\<open>str.lower()\<close> on the modelled range: A-Z and the Latin-1 capitals move up by 32.\<close>

definition lower_char :: "char \<Rightarrow> char" where
  "lower_char c =
     (let n = (of_char c :: nat)
      in if (65 \<le> n \<and> n \<le> 90) \<or> (192 \<le> n \<and> n \<le> 222 \<and> n \<noteq> 215)
         then char_of (n + 32) else c)"

definition lower :: "string \<Rightarrow> string" where
  "lower s = map lower_char s"

text \<open>\<^verbatim>\<open>buffer.endswith("</item>")\<close>.\<close>

definition endswith :: "string \<Rightarrow> string \<Rightarrow> bool" where
  "endswith s suf \<longleftrightarrow> suffix suf s"


section \<open>The three regular-expression searches of the item decoder\<close>

text \<open>
  \<^verbatim>\<open>re.search\<close> tries every start position from the left and returns the first match.

  \<^verbatim>\<open><length>(\d+)</length>\<close>: after the opening tag the greedy \<^verbatim>\<open>\d+\<close> takes the
  whole run of digits; giving digits back cannot help, because the closing tag starts
  with \<^verbatim>\<open><\<close>. The group is that run, which must not be empty.
\<close>

definition digit :: "char \<Rightarrow> bool" where
  "digit c \<longleftrightarrow> c \<in> set ''0123456789''"

definition match_length_at :: "string \<Rightarrow> string option" where
  "match_length_at s =
     (if prefix ''<length>'' s then
        (let r = drop (length ''<length>'') s; ds = takeWhile digit r
         in if ds \<noteq> [] \<and> prefix ''</length>'' (dropWhile digit r) then Some ds else None)
      else None)"

fun search_length :: "string \<Rightarrow> string option" where
  "search_length [] = None"
| "search_length (c # cs) =
     (case match_length_at (c # cs) of Some ds \<Rightarrow> Some ds | None \<Rightarrow> search_length cs)"

text \<open>
  Exceptions are values: the one \<^verbatim>\<open>int\<close> raises, the three \<^verbatim>\<open>base64.b64decode\<close>
  raises, and every exception of the image library and of the operating system as an
  \<open>External\<close> one, named by its text.
\<close>

datatype exn =
    ValueError_int_digits
  | ValueError_non_ascii
  | Binascii_Error_length
  | Binascii_Error_padding
  | External string

text \<open>
  \<^verbatim>\<open>int(group(1))\<close> of a run of ASCII digits. Python integers are unbounded, but
  since CPython 3.11 the conversion from text is not: a text of more than 640 digits
  that is longer than the interpreter's \<^verbatim>\<open>int_max_str_digits\<close> (4300 unless configured
  otherwise, 0 for no limit) raises \<^verbatim>\<open>ValueError\<close>. Leading zeros count.
\<close>

definition int_of_digits :: "string \<Rightarrow> nat" where
  "int_of_digits ds = foldl (\<lambda>a c. 10 * a + (of_char c - 48)) 0 ds"

definition int_of_str :: "nat \<Rightarrow> string \<Rightarrow> exn + nat" where
  "int_of_str max_str_digits ds =
     (if 640 < length ds \<and> 0 < max_str_digits \<and> max_str_digits < length ds
      then Inl ValueError_int_digits
      else Inr (int_of_digits ds))"

text \<open>
  \<^verbatim>\<open><code>(.*?)</code>\<close> and \<^verbatim>\<open><data encoding="base64">(.*?)</data>\<close>: after the
  opening tag the lazy group grows one character at a time, never over a line feed,
  until the closing tag follows.
\<close>

fun lazy_group :: "string \<Rightarrow> string \<Rightarrow> string option" where
  "lazy_group cls [] = (if cls = [] then Some [] else None)"
| "lazy_group cls (c # cs) =
     (if prefix cls (c # cs) then Some []
      else if c = CHR 0x0A then None
      else map_option ((#) c) (lazy_group cls cs))"

definition match_tag_at :: "string \<Rightarrow> string \<Rightarrow> string \<Rightarrow> string option" where
  "match_tag_at opn cls s =
     (if prefix opn s then lazy_group cls (drop (length opn) s) else None)"

fun search_tag :: "string \<Rightarrow> string \<Rightarrow> string \<Rightarrow> string option" where
  "search_tag opn cls [] = match_tag_at opn cls []"
| "search_tag opn cls (c # cs) =
     (case match_tag_at opn cls (c # cs) of
        Some g \<Rightarrow> Some g
      | None \<Rightarrow> search_tag opn cls cs)"

text \<open>Lines 83 to 90: the extracted length (0 when nothing matches), code and data.\<close>

definition frame_length :: "nat \<Rightarrow> string \<Rightarrow> exn + nat" where
  "frame_length max_str_digits buffer =
     (case search_length buffer of
        Some ds \<Rightarrow> int_of_str max_str_digits ds
      | None \<Rightarrow> Inr 0)"

definition code_match :: "string \<Rightarrow> string option" where
  "code_match buffer = search_tag ''<code>'' ''</code>'' buffer"

definition data_tag :: string where
  "data_tag = ''<data encoding='' @ [CHR 0x22] @ ''base64'' @ [CHR 0x22] @ ''>''"

definition data_match :: "string \<Rightarrow> string option" where
  "data_match buffer = search_tag data_tag ''</data>'' buffer"

text \<open>Lines 46 to 51.\<close>

definition ESSENTIAL_FIELDS :: "(string \<times> string) list" where
  "ESSENTIAL_FIELDS =
     [(''6d696e6d'', ''track_name''),
      (''61736370'', ''comment''),
      (''6173616c'', ''album''),
      (''50494354'', ''picture_data'')]"


section \<open>Library functions the payload processor calls\<close>

subsection \<open>\<^verbatim>\<open>base64.b64decode(s)\<close> with its default \<^verbatim>\<open>validate=False\<close>\<close>

text \<open>
  The standard library first turns a \<^verbatim>\<open>str\<close> argument into bytes with
  \<^verbatim>\<open>s.encode('ascii')\<close> and raises \<^verbatim>\<open>ValueError\<close> when that fails, then calls
  \<^verbatim>\<open>binascii.a2b_base64\<close> in its non-strict mode (CPython 3.11). That decoder walks over
  the input once with three variables: \<open>quad_pos\<close>, the position in the current group of
  four digits; \<open>leftchar\<close>, the bits of the group not yet written; \<open>pads\<close>, the number of
  \<^verbatim>\<open>=\<close> seen since the last digit. A character that is neither a digit of the alphabet
  nor \<^verbatim>\<open>=\<close> is skipped. A \<^verbatim>\<open>=\<close> that completes the padding of a group ends the
  decoding, whatever follows. At the end of the input an unfinished group is an error.
\<close>

definition table_a2b_base64 :: "char \<Rightarrow> nat option" where
  "table_a2b_base64 c =
     (let n = (of_char c :: nat)
      in if 65 \<le> n \<and> n \<le> 90 then Some (n - 65)
         else if 97 \<le> n \<and> n \<le> 122 then Some (n - 71)
         else if 48 \<le> n \<and> n \<le> 57 then Some (n + 4)
         else if c = CHR ''+'' then Some 62
         else if c = CHR ''/'' then Some 63
         else None)"

fun a2b_base64 :: "nat \<Rightarrow> nat \<Rightarrow> nat \<Rightarrow> bytes \<Rightarrow> string \<Rightarrow> exn + bytes" where
  "a2b_base64 quad_pos leftchar pads out [] =
     (if quad_pos = 0 then Inr out
      else if quad_pos = 1 then Inl Binascii_Error_length
      else Inl Binascii_Error_padding)"
| "a2b_base64 quad_pos leftchar pads out (c # cs) =
     (if c = CHR ''='' then
        (if 2 \<le> quad_pos \<and> 4 \<le> quad_pos + (pads + 1) then Inr out
         else a2b_base64 quad_pos leftchar (if 2 \<le> quad_pos then pads + 1 else pads) out cs)
      else
        (case table_a2b_base64 c of
           None \<Rightarrow> a2b_base64 quad_pos leftchar pads out cs
         | Some v \<Rightarrow>
             (if quad_pos = 0 then a2b_base64 1 v 0 out cs
              else if quad_pos = 1 then
                a2b_base64 2 (v mod 16) 0 (out @ [leftchar * 4 + v div 16]) cs
              else if quad_pos = 2 then
                a2b_base64 3 (v mod 4) 0 (out @ [leftchar * 16 + v div 4]) cs
              else a2b_base64 0 0 0 (out @ [leftchar * 64 + v]) cs)))"

definition is_ascii :: "char \<Rightarrow> bool" where
  "is_ascii c \<longleftrightarrow> (of_char c :: nat) < 128"

definition b64decode :: "string \<Rightarrow> exn + bytes" where
  "b64decode s =
     (if list_all is_ascii s then a2b_base64 0 0 0 [] s else Inl ValueError_non_ascii)"

subsection \<open>\<^verbatim>\<open>bytes.decode("utf-8", errors="replace")\<close>\<close>

text \<open>
  CPython's decoder reads one sequence at a time. \<open>utf8_step b bs\<close> looks at the lead
  byte \<open>b\<close> and the bytes \<open>bs\<close> after it and gives the code point produced and how many
  bytes after the lead byte it consumed. A lead byte that cannot start a sequence, and a
  sequence broken by a byte that cannot continue it, give U+FFFD for the bytes read so
  far; a sequence cut short by the end of the data gives one U+FFFD for what is left.
  Overlong forms, surrogates and code points above U+10FFFF are rejected at the second
  byte.
\<close>

definition continuation :: "nat \<Rightarrow> bool" where
  "continuation b \<longleftrightarrow> 128 \<le> b \<and> b \<le> 191"

definition utf8_step :: "nat \<Rightarrow> bytes \<Rightarrow> nat \<times> nat" where
  "utf8_step b bs =
     (if b < 128 then (b, 0)
      else if b < 194 then (65533, 0)
      else if b < 224 then
        (case bs of
           [] \<Rightarrow> (65533, 0)
         | b2 # _ \<Rightarrow>
             if continuation b2 then ((b - 192) * 64 + (b2 - 128), 1) else (65533, 0))
      else if b < 240 then
        (case bs of
           [] \<Rightarrow> (65533, 0)
         | b2 # r \<Rightarrow>
             if \<not> continuation b2 \<or> (if b2 < 160 then b = 224 else b = 237) then (65533, 0)
             else
               (case r of
                  [] \<Rightarrow> (65533, 1)
                | b3 # _ \<Rightarrow>
                    if continuation b3
                    then ((b - 224) * 4096 + (b2 - 128) * 64 + (b3 - 128), 2)
                    else (65533, 1)))
      else if b < 245 then
        (case bs of
           [] \<Rightarrow> (65533, 0)
         | b2 # r \<Rightarrow>
             if \<not> continuation b2 \<or> (if b2 < 144 then b = 240 else b = 244) then (65533, 0)
             else
               (case r of
                  [] \<Rightarrow> (65533, 1)
                | b3 # r' \<Rightarrow>
                    if \<not> continuation b3 then (65533, 1)
                    else
                      (case r' of
                         [] \<Rightarrow> (65533, 2)
                       | b4 # _ \<Rightarrow>
                           if continuation b4
                           then ((b - 240) * 262144 + (b2 - 128) * 4096
                                 + (b3 - 128) * 64 + (b4 - 128), 3)
                           else (65533, 2))))
      else (65533, 0))"

fun utf8_replace :: "bytes \<Rightarrow> unicode" where
  "utf8_replace [] = []"
| "utf8_replace (b # bs) =
     (case utf8_step b bs of (cp, n) \<Rightarrow> cp # utf8_replace (drop n bs))"

subsection \<open>\<^verbatim>\<open>int(x)\<close> of a float, \<^verbatim>\<open>str(i)\<close> of an integer, \<^verbatim>\<open>os.path.join\<close>\<close>

text \<open>Clock readings are floats in the source; they are real numbers here.\<close>

definition int_of_float :: "real \<Rightarrow> int" where
  "int_of_float x = (if 0 \<le> x then \<lfloor>x\<rfloor> else \<lceil>x\<rceil>)"

fun decimal :: "nat \<Rightarrow> string" where
  "decimal n =
     (if n < 10 then [''0123456789'' ! n]
      else decimal (n div 10) @ [''0123456789'' ! (n mod 10)])"

declare decimal.simps [simp del]

definition str_of_int :: "int \<Rightarrow> string" where
  "str_of_int i = (if i < 0 then ''-'' @ decimal (nat (- i)) else decimal (nat i))"

definition os_path_join :: "string \<Rightarrow> string \<Rightarrow> string" where
  "os_path_join a b =
     (if prefix ''/'' b then b
      else if a = [] \<or> suffix ''/'' a then a @ b
      else a @ ''/'' @ b)"


section \<open>The metadata listener\<close>

text \<open>
  \<^verbatim>\<open>current_song\<close> (lines 54 to 60) is a dictionary from field names to values: the
  four fields start as \<^verbatim>\<open>None\<close>, \<^verbatim>\<open>last_update\<close> as 0.
\<close>

datatype pyval = PNone | PStr unicode | PFloat real

type_synonym song = "string \<rightharpoonup> pyval"

definition current_song_initial :: song where
  "current_song_initial =
     [''track_name'' \<mapsto> PNone, ''comment'' \<mapsto> PNone, ''album'' \<mapsto> PNone,
      ''picture_file'' \<mapsto> PNone, ''last_update'' \<mapsto> PFloat 0]"

text \<open>
  What the listener cannot compute by itself comes from outside: the image library, the
  clock and the interpreter's limit on integer texts. An opened image shows the
  listener its \<^verbatim>\<open>format\<close> only. \<^verbatim>\<open>img.save(path)\<close> either writes the file \<open>path\<close>
  with the encoding the library chooses for the image, or raises and leaves at \<open>path\<close>
  whatever it leaves there (nothing, the old file or a damaged one); it touches no
  other file. One \<open>io\<close> holds the outcomes of the calls made while one line is
  handled: \<open>time_name\<close> is the clock read on line 108 and \<open>time_stamp\<close> the clock read
  on line 113 or 120.
\<close>

datatype image = Image (format: "string option") (raster: bytes)

datatype save_result = Saved bytes | Save_failed exn "bytes option"

record io =
  Image_open :: "bytes \<Rightarrow> exn + image"
  Image_save :: "image \<Rightarrow> string \<Rightarrow> bytes option \<Rightarrow> save_result"
  time_name :: real
  time_stamp :: real
  int_max_str_digits :: nat

text \<open>The messages the listener prints when it catches an exception: lines 115 and
  123 inside the item handler, line 127 around the whole reading loop.\<close>

datatype message =
    Error_saving_image exn
  | Exception_decoding_item exn
  | Metadata_listener_exception exn

record listener =
  buffer :: string
  current_song :: song
  files :: "string \<rightharpoonup> bytes"
  printed :: "message list"

text \<open>Lines 105 to 115: the picture branch with its own \<^verbatim>\<open>try\<close>.\<close>

definition picture_ext :: "image \<Rightarrow> string" where
  "picture_ext img =
     (case format img of
        None \<Rightarrow> ''jpg''
      | Some f \<Rightarrow> if f = [] then ''jpg'' else lower f)"

definition picture_path :: "io \<Rightarrow> string \<Rightarrow> image \<Rightarrow> string" where
  "picture_path io cover_dir img =
     (let ext = picture_ext img;
          ts = int_of_float (time_name io * 1000)
      in os_path_join cover_dir (''cover_art_'' @ str_of_int ts @ ''.'' @ ext))"

definition save_picture :: "io \<Rightarrow> string \<Rightarrow> bytes \<Rightarrow> listener \<Rightarrow> listener" where
  "save_picture io cover_dir decoded_bytes w =
     (case Image_open io decoded_bytes of
        Inl e \<Rightarrow> w\<lparr>printed := printed w @ [Error_saving_image e]\<rparr>
      | Inr img \<Rightarrow>
          (let img_file = picture_path io cover_dir img
           in case Image_save io img img_file (files w img_file) of
                Save_failed e left \<Rightarrow>
                  w\<lparr>files := (files w)(img_file := left),
                    printed := printed w @ [Error_saving_image e]\<rparr>
              | Saved written \<Rightarrow>
                  w\<lparr>files := (files w)(img_file \<mapsto> written),
                    current_song := (current_song w)
                      (''picture_file'' \<mapsto> PStr (unicode_of img_file),
                       ''last_update'' \<mapsto> PFloat (time_stamp io))\<rparr>))"

text \<open>
  Lines 83 to 125: a completed item. Line 84 is outside the \<^verbatim>\<open>try\<close> of line 101: when
  \<^verbatim>\<open>int\<close> raises, the exception leaves the reading loop, is printed on line 127, and
  after the pause the pipe is opened again with \<^verbatim>\<open>buffer\<close> as it was. Every other path
  ends by emptying the buffer: line 86 for length 0, line 95 for an unknown code, line
  125 for the rest.
\<close>

definition process_item :: "io \<Rightarrow> string \<Rightarrow> listener \<Rightarrow> listener" where
  "process_item io cover_dir w =
     (case frame_length (int_max_str_digits io) (buffer w) of
        Inl e \<Rightarrow> w\<lparr>printed := printed w @ [Metadata_listener_exception e]\<rparr>
      | Inr len \<Rightarrow>
          (if len = 0 then w\<lparr>buffer := []\<rparr>
           else
             (case code_match (buffer w) of
                None \<Rightarrow> w\<lparr>buffer := []\<rparr>
              | Some code \<Rightarrow>
                  (case data_match (buffer w) of
                     None \<Rightarrow> w\<lparr>buffer := []\<rparr>
                   | Some data_b64 \<Rightarrow>
                       (case map_of ESSENTIAL_FIELDS code of
                          None \<Rightarrow> w\<lparr>buffer := []\<rparr>
                        | Some field_name \<Rightarrow>
                            (case b64decode data_b64 of
                               Inl e \<Rightarrow>
                                 w\<lparr>printed := printed w @ [Exception_decoding_item e],
                                   buffer := []\<rparr>
                             | Inr decoded_bytes \<Rightarrow>
                                 (if field_name = ''picture_data''
                                  then (save_picture io cover_dir decoded_bytes w)
                                         \<lparr>buffer := []\<rparr>
                                  else
                                    w\<lparr>current_song := (current_song w)
                                         (field_name \<mapsto> PStr (utf8_replace decoded_bytes),
                                          ''last_update'' \<mapsto> PFloat (time_stamp io)),
                                      buffer := []\<rparr>)))))))"

text \<open>Lines 76 to 125: one \<^verbatim>\<open>readline\<close>. An empty result means no data yet and changes
  nothing; otherwise the stripped line joins the buffer, and a buffer that ends with
  the closing tag is processed.\<close>

definition on_line :: "io \<Rightarrow> string \<Rightarrow> string \<Rightarrow> listener \<Rightarrow> listener" where
  "on_line io cover_dir line w =
     (if line = [] then w
      else
        (let w' = w\<lparr>buffer := buffer w @ strip line\<rparr>
         in if endswith (buffer w') ''</item>'' then process_item io cover_dir w' else w'))"



section \<open>The most recent cover art file\<close>













section \<open>The song dictionary shared by two threads\<close>

text \<open>
  Two threads touch \<^verbatim>\<open>current_song\<close>: the listener thread writes it on lines 111 to
  113 and 118 to 120, the user interface reads it on lines 192 to 197, both inside
  \<^verbatim>\<open>with buffer_lock\<close>. The threads are modelled by their steps on the shared state,
  one dictionary operation or one lock operation each, and a run by the order in which
  the scheduler lets the threads step. A thread that asks for the lock while the other
  holds it does not move.

  The listener performs the updates \<open>us\<close> in order, each a key, a value and the clock
  reading for \<^verbatim>\<open>last_update\<close>: it takes the lock, assigns the value, assigns the time
  stamp and gives the lock back. \<open>finished\<close> counts the updates it has completed and
  \<open>writer_at\<close> is its place in the current one. The user interface takes the lock, reads
  the five keys one after the other and gives the lock back; \<open>reader_at\<close> holds the
  values read so far, and a completed reading is kept in \<open>snapshots\<close>.
\<close>

datatype thread = Listener | Ui

type_synonym update = "string \<times> pyval \<times> real"

record shared =
  song :: song
  lock :: "thread option"
  finished :: nat
  writer_at :: nat
  reader_at :: "pyval option list option"
  snapshots :: "pyval option list list"

definition refresh_keys :: "string list" where
  "refresh_keys = [''track_name'', ''comment'', ''album'', ''picture_file'', ''last_update'']"

fun step :: "update list \<Rightarrow> thread \<Rightarrow> shared \<Rightarrow> shared" where
  "step us Listener c =
     (if writer_at c = 0 then
        (if finished c < length us \<and> lock c = None
         then c\<lparr>lock := Some Listener, writer_at := 1\<rparr>
         else c)
      else if writer_at c = 1 then
        (case us ! finished c of
           (k, v, t) \<Rightarrow> c\<lparr>song := (song c)(k \<mapsto> v), writer_at := 2\<rparr>)
      else if writer_at c = 2 then
        (case us ! finished c of
           (k, v, t) \<Rightarrow> c\<lparr>song := (song c)(''last_update'' \<mapsto> PFloat t), writer_at := 3\<rparr>)
      else c\<lparr>lock := None, writer_at := 0, finished := Suc (finished c)\<rparr>)"
| "step us Ui c =
     (case reader_at c of
        None \<Rightarrow>
          (if lock c = None then c\<lparr>lock := Some Ui, reader_at := Some []\<rparr> else c)
      | Some vs \<Rightarrow>
          (if length vs < length refresh_keys
           then c\<lparr>reader_at := Some (vs @ [song c (refresh_keys ! length vs)])\<rparr>
           else c\<lparr>lock := None, reader_at := None, snapshots := snapshots c @ [vs]\<rparr>))"

fun run :: "update list \<Rightarrow> thread list \<Rightarrow> shared \<Rightarrow> shared" where
  "run us [] c = c"
| "run us (t # schedule) c = run us schedule (step us t c)"

definition shared_initial :: "song \<Rightarrow> shared" where
  "shared_initial s =
     \<lparr>song = s, lock = None, finished = 0, writer_at = 0, reader_at = None, snapshots = []\<rparr>"

text \<open>The song after the first \<open>n\<close> updates, each applied as a whole.\<close>

definition apply_update :: "song \<Rightarrow> update \<Rightarrow> song" where
  "apply_update s u = (case u of (k, v, t) \<Rightarrow> s(k \<mapsto> v, ''last_update'' \<mapsto> PFloat t))"

definition song_after :: "song \<Rightarrow> update list \<Rightarrow> nat \<Rightarrow> song" where
  "song_after s us n = foldl apply_update s (take n us)"

text \<open>What holds of the shared state at every moment of every run.\<close>

definition consistent :: "song \<Rightarrow> update list \<Rightarrow> shared \<Rightarrow> bool" where
  "consistent s us c \<longleftrightarrow>
     finished c \<le> length us \<and> writer_at c \<le> 3
     \<and> (writer_at c \<noteq> 0 \<longrightarrow> finished c < length us)
     \<and> (lock c = Some Listener \<longleftrightarrow> writer_at c \<noteq> 0)
     \<and> (lock c = Some Ui \<longleftrightarrow> reader_at c \<noteq> None)
     \<and> (writer_at c \<le> 1 \<longrightarrow> song c = song_after s us (finished c))
     \<and> (writer_at c = 2 \<longrightarrow>
          song c = (song_after s us (finished c))
                     (fst (us ! finished c) \<mapsto> fst (snd (us ! finished c))))
     \<and> (writer_at c = 3 \<longrightarrow> song c = song_after s us (Suc (finished c)))
     \<and> (case reader_at c of
          None \<Rightarrow> True
        | Some vs \<Rightarrow> length vs \<le> length refresh_keys
                     \<and> vs = map (song c) (take (length vs) refresh_keys))
     \<and> (\<forall>vs \<in> set (snapshots c).
          \<exists>n \<le> length us. vs = map (song_after s us n) refresh_keys)"

section \<open>Concrete runs\<close>

text \<open>
  The listener at start-up, a few items as the receiver writes them, and three
  behaviours of the outside world: an image library that recognises nothing, one that
  reads every payload as a PNG and writes its own encoding of it, and one that reads
  the payload but cannot write the file. The interpreter has its default limit of 4300
  digits.
\<close>

definition listener_initial :: listener where
  "listener_initial =
     \<lparr>buffer = [], current_song = current_song_initial, files = Map.empty, printed = []\<rparr>"

definition io_none :: io where
  "io_none =
     \<lparr>Image_open = (\<lambda>b. Inl (External ''UnidentifiedImageError'')),
      Image_save = (\<lambda>img path old. Save_failed (External ''OSError'') old),
      time_name = 17000000001234 / 10000,
      time_stamp = 17000000001239 / 10000,
      int_max_str_digits = 4300\<rparr>"

definition io_png :: io where
  "io_png =
     \<lparr>Image_open = (\<lambda>b. Inr (Image (Some ''PNG'') b)),
      Image_save = (\<lambda>img path old. Saved (0 # raster img)),
      time_name = 17000000001234 / 10000,
      time_stamp = 17000000001239 / 10000,
      int_max_str_digits = 4300\<rparr>"

definition io_disk_full :: io where
  "io_disk_full =
     \<lparr>Image_open = (\<lambda>b. Inr (Image (Some ''PNG'') b)),
      Image_save = (\<lambda>img path old. Save_failed (External ''OSError: No space left on device'') None),
      time_name = 17000000001234 / 10000,
      time_stamp = 17000000001239 / 10000,
      int_max_str_digits = 4300\<rparr>"

definition item :: "string \<Rightarrow> string \<Rightarrow> string \<Rightarrow> string" where
  "item code len payload =
     ''<item><type>636f7265</type><code>'' @ code @ ''</code><length>'' @ len
       @ ''</length>'' @ data_tag @ payload @ ''</data></item>''"

definition hello_item :: string where
  "hello_item = item ''6d696e6d'' ''5'' ''SGVsbG8=''"

definition zero_item :: string where
  "zero_item = ''<item><type>636f7265</type><code>6173616c</code><length>0</length></item>''"

definition unpadded_item :: string where
  "unpadded_item = item ''6d696e6d'' ''5'' ''SGVsbG8''"



definition png_item :: string where
  "png_item = item ''50494354'' ''8'' ''iVBORw0KGgo=''"

text \<open>An item whose length is written with 4301 digits: with the track title code,
  and with a code that is not in the table.\<close>

definition many_digits :: string where
  "many_digits = replicate 4301 (CHR ''1'')"

definition overlong_item :: string where
  "overlong_item = item ''6d696e6d'' many_digits ''SGVsbG8=''"

definition overlong_unknown_item :: string where
  "overlong_unknown_item = item ''6d706572'' many_digits ''SGVsbG8=''"

text \<open>The three fields that hold text.\<close>

definition text_fields :: "string list" where
  "text_fields = [''track_name'', ''comment'', ''album'']"

text \<open>
  The occasions the specification calls a successful update: a line that completes an
  item with a length that converts and is above 0, a code of the table and a base64
  payload that decodes,
  which either routes to a text field, or is a picture the image library opens and
  saves.
\<close>

definition successful_update :: "io \<Rightarrow> string \<Rightarrow> string \<Rightarrow> listener \<Rightarrow> bool" where
  "successful_update io cover_dir line w \<longleftrightarrow>
     line \<noteq> [] \<and> endswith (buffer w @ strip line) ''</item>''
     \<and> (case frame_length (int_max_str_digits io) (buffer w @ strip line) of
          Inl e \<Rightarrow> False
        | Inr len \<Rightarrow> 0 < len)
     \<and> (case code_match (buffer w @ strip line) of
          None \<Rightarrow> False
        | Some code \<Rightarrow>
            (case data_match (buffer w @ strip line) of
               None \<Rightarrow> False
             | Some data_b64 \<Rightarrow>
                 (case map_of ESSENTIAL_FIELDS code of
                    None \<Rightarrow> False
                  | Some field_name \<Rightarrow>
                      (case b64decode data_b64 of
                         Inl e \<Rightarrow> False
                       | Inr decoded_bytes \<Rightarrow>
                           field_name \<in> set text_fields
                           \<or> (case Image_open io decoded_bytes of
                                Inl e \<Rightarrow> False
                              | Inr img \<Rightarrow>
                                  (case Image_save io img (picture_path io cover_dir img)
                                          (files w (picture_path io cover_dir img)) of
                                     Saved written \<Rightarrow> True
                                   | Save_failed e left \<Rightarrow> False))))))"

definition png_item2 :: string where
  "png_item2 = item ''50494354'' ''9'' ''iVBORw0KGgoA''"






text \<open>One update of the track name, and a schedule in which the user interface reads
  once before it, is made to wait once while the listener holds the lock, and reads
  once after it.\<close>

definition shared_example :: "update list" where
  "shared_example = [(''track_name'', PStr (unicode_of ''Hello''), 7)]"

definition example_schedule :: "thread list" where
  "example_schedule =
     [Ui, Ui, Listener, Ui, Ui, Ui, Ui, Ui, Listener, Listener, Ui, Listener, Listener,
      Listener, Ui, Ui, Ui, Ui, Ui, Ui, Ui]"

section \<open>Facts about the concrete runs\<close>

lemma on_line_completed:
  assumes "line \<noteq> []" and "endswith (buffer w @ strip line) ''</item>''"
  shows "on_line io cover_dir line w =
           process_item io cover_dir (w\<lparr>buffer := buffer w @ strip line\<rparr>)"
  using assms by (simp add: on_line_def Let_def)

lemma listener_initial_simps:
  "buffer listener_initial = []"
  "current_song listener_initial = current_song_initial"
  "files listener_initial = Map.empty"
  "printed listener_initial = []"
  by (simp_all add: listener_initial_def)

lemma hello_facts:
  "hello_item \<noteq> []"
  "endswith (strip hello_item) ''</item>''"
  "search_length (strip hello_item) = Some ''5''"
  "code_match (strip hello_item) = Some ''6d696e6d''"
  "data_match (strip hello_item) = Some ''SGVsbG8=''"
  "map_of ESSENTIAL_FIELDS ''6d696e6d'' = Some ''track_name''"
  "b64decode ''SGVsbG8='' = Inr [72, 101, 108, 108, 111]"
  "utf8_replace [72, 101, 108, 108, 111] = unicode_of ''Hello''"
  by code_simp+

lemma zero_facts:
  "zero_item \<noteq> []"
  "endswith (strip zero_item) ''</item>''"
  "search_length (strip zero_item) = Some ''0''"
  by code_simp+

lemma unpadded_facts:
  "unpadded_item \<noteq> []"
  "endswith (strip unpadded_item) ''</item>''"
  "search_length (strip unpadded_item) = Some ''5''"
  "code_match (strip unpadded_item) = Some ''6d696e6d''"
  "data_match (strip unpadded_item) = Some ''SGVsbG8''"
  "b64decode ''SGVsbG8'' = Inl Binascii_Error_padding"
  by code_simp+

lemma png_facts:
  "png_item \<noteq> []"
  "endswith (strip png_item) ''</item>''"
  "search_length (strip png_item) = Some ''8''"
  "code_match (strip png_item) = Some ''50494354''"
  "data_match (strip png_item) = Some ''iVBORw0KGgo=''"
  "map_of ESSENTIAL_FIELDS ''50494354'' = Some ''picture_data''"
  "b64decode ''iVBORw0KGgo='' = Inr [137, 80, 78, 71, 13, 10, 26, 10]"
  by code_simp+

lemma png2_facts:
  "png_item2 \<noteq> []"
  "endswith (strip png_item2) ''</item>''"
  "search_length (strip png_item2) = Some ''9''"
  "code_match (strip png_item2) = Some ''50494354''"
  "data_match (strip png_item2) = Some ''iVBORw0KGgoA''"
  "b64decode ''iVBORw0KGgoA'' = Inr [137, 80, 78, 71, 13, 10, 26, 10, 0]"
  by code_simp+

text \<open>A length of one digit converts under every limit.\<close>

lemma int_of_str_short: "length ds \<le> 640 \<Longrightarrow> int_of_str m ds = Inr (int_of_digits ds)"
  by (simp add: int_of_str_def)

lemma item_lengths:
  "frame_length m (strip hello_item) = Inr 5"
  "frame_length m (strip zero_item) = Inr 0"
  "frame_length m (strip unpadded_item) = Inr 5"
  "frame_length m (strip png_item) = Inr 8"
  "frame_length m (strip png_item2) = Inr 9"
  by (simp_all add: frame_length_def int_of_str_short int_of_digits_def
      hello_facts(3) zero_facts(3) unpadded_facts(3) png_facts(3) png2_facts(3))





lemma io_simps:
  "Image_open io_disk_full = (\<lambda>b. Inr (Image (Some ''PNG'') b))"
  "Image_save io_disk_full =
     (\<lambda>img path old. Save_failed (External ''OSError: No space left on device'') None)"
  "Image_open io_png = (\<lambda>b. Inr (Image (Some ''PNG'') b))"
  "Image_save io_png = (\<lambda>img path old. Saved (0 # raster img))"
  "Image_open io_none = (\<lambda>b. Inl (External ''UnidentifiedImageError''))"
  "time_stamp io_png = 17000000001239 / 10000"
  "time_stamp io_none = 17000000001239 / 10000"
  "int_max_str_digits io_none = 4300"
  "int_max_str_digits io_png = 4300"
  by (simp_all add: io_disk_full_def io_png_def io_none_def)



text \<open>The items with the overlong length: the length is found, and its conversion raises
  under the default limit.\<close>

lemma many_digits_simps:
  "length many_digits = 4301"
  "many_digits \<noteq> []"
  "takeWhile digit (many_digits @ CHR ''<'' # r) = many_digits"
  "dropWhile digit (many_digits @ CHR ''<'' # r) = CHR ''<'' # r"
proof -
  have d: "\<And>x. x \<in> set many_digits \<Longrightarrow> digit x"
    by (simp add: many_digits_def digit_def)
  have n: "\<not> digit (CHR ''<'')" by (simp add: digit_def)
  show "length many_digits = 4301"
    by (simp add: many_digits_def)
  then show "many_digits \<noteq> []" by auto
  show "takeWhile digit (many_digits @ CHR ''<'' # r) = many_digits"
    using d n by (simp add: takeWhile_append2)
  show "dropWhile digit (many_digits @ CHR ''<'' # r) = CHR ''<'' # r"
    using d n by (simp add: dropWhile_append2)
qed

lemma strip_unchanged:
  assumes "s \<noteq> []" "\<not> isspace (hd s)" "\<not> isspace (last s)"
  shows "strip s = s"
proof -
  from assms(1,2) have a: "dropWhile isspace s = s" by (cases s) simp_all
  from assms(1,3) have "dropWhile isspace (rev s) = rev s"
    by (cases "rev s") (simp_all add: hd_rev [symmetric])
  with a show ?thesis by (simp add: strip_def)
qed

lemma item_endswith: "endswith (item code len payload) ''</item>''"
  unfolding endswith_def item_def
  by (rule suffixI [of _ "''<item><type>636f7265</type><code>'' @ code @ ''</code><length>''
        @ len @ ''</length>'' @ data_tag @ payload @ ''</data>''"]) simp

lemma overlong_facts:
  "overlong_item \<noteq> []"
  "strip overlong_item = overlong_item"
  "endswith overlong_item ''</item>''"
  "search_length overlong_item = Some many_digits"
  "overlong_unknown_item \<noteq> []"
  "strip overlong_unknown_item = overlong_unknown_item"
  "endswith overlong_unknown_item ''</item>''"
  "search_length overlong_unknown_item = Some many_digits"
  "code_match overlong_unknown_item = Some ''6d706572''"
  "map_of ESSENTIAL_FIELDS ''6d706572'' = None"
proof -
  have sp: "\<not> isspace (CHR ''<'')" "\<not> isspace (CHR ''>'')"
    by (simp_all add: isspace_def)
  show "overlong_item \<noteq> []" "overlong_unknown_item \<noteq> []"
    by (simp_all add: overlong_item_def overlong_unknown_item_def item_def)
  show "strip overlong_item = overlong_item"
    by (rule strip_unchanged) (simp_all add: overlong_item_def item_def data_tag_def sp)
  show "strip overlong_unknown_item = overlong_unknown_item"
    by (rule strip_unchanged)
      (simp_all add: overlong_unknown_item_def item_def data_tag_def sp)
  show "endswith overlong_item ''</item>''"
    unfolding overlong_item_def by (rule item_endswith)
  show "endswith overlong_unknown_item ''</item>''"
    unfolding overlong_unknown_item_def by (rule item_endswith)
  show "search_length overlong_item = Some many_digits"
    by (simp add: overlong_item_def item_def match_length_at_def many_digits_simps)
  show "search_length overlong_unknown_item = Some many_digits"
    by (simp add: overlong_unknown_item_def item_def match_length_at_def many_digits_simps)
  show "code_match overlong_unknown_item = Some ''6d706572''"
    by (simp add: overlong_unknown_item_def item_def code_match_def match_tag_at_def)
  show "map_of ESSENTIAL_FIELDS ''6d706572'' = None"
    by (simp add: ESSENTIAL_FIELDS_def)
qed

lemma overlong_length:
  "frame_length 4300 overlong_item = Inl ValueError_int_digits"
  "frame_length 4300 overlong_unknown_item = Inl ValueError_int_digits"
  by (simp_all add: frame_length_def overlong_facts int_of_str_def many_digits_simps)


section \<open>The accumulation buffer\<close>

lemma buffer_process_item:
  "frame_length (int_max_str_digits io) (buffer w) = Inr len \<Longrightarrow>
     buffer (process_item io cover_dir w) = []"
  by (simp add: process_item_def save_picture_def Let_def
      split: option.splits sum.splits save_result.splits)

text \<open>
  When a line completes an item whose length converts, the buffer is empty afterwards,
  whichever path the item takes: length 0, a missing code or payload, an unknown code,
  a payload that does not decode, a picture that is not saved, or an update.
\<close>

lemma buffer_empty_when_length_converts:
  assumes "line \<noteq> []"
      and "endswith (buffer w @ strip line) ''</item>''"
      and "frame_length (int_max_str_digits io) (buffer w @ strip line) = Inr len"
    shows "buffer (on_line io cover_dir line w) = []"
  using assms by (simp add: on_line_completed buffer_process_item)

text \<open>Without a limit on integer texts every length converts.\<close>

lemma length_converts_without_limit:
  "\<exists>len. frame_length 0 frame = Inr len"
  by (simp add: frame_length_def int_of_str_def split: option.splits)

lemma hello_after_overlong:
  "strip hello_item = hello_item"
  "endswith (overlong_item @ hello_item) ''</item>''"
  "search_length (overlong_item @ hello_item) = Some many_digits"
proof -
  show "strip hello_item = hello_item" by code_simp
  show "endswith (overlong_item @ hello_item) ''</item>''"
    using item_endswith [of "''6d696e6d''" "''5''" "''SGVsbG8=''"]
    by (simp add: endswith_def hello_item_def suffix_append)
  show "search_length (overlong_item @ hello_item) = Some many_digits"
    by (simp add: overlong_item_def item_def match_length_at_def many_digits_simps)
qed

text \<open>
  C7 fails on the code. With the interpreter's default limit, an item whose length is
  written with 4301 digits makes \<^verbatim>\<open>int\<close> raise on line 84, outside the \<^verbatim>\<open>try\<close> of
  line 101, and none of the three resets is reached: the exception is printed on line
  127 and the buffer still holds the whole item. The item that follows is appended to
  it, the search finds the same length again, and the track title it carries never
  reaches the song.
\<close>

theorem overlong_length_keeps_buffer:
  "endswith (buffer listener_initial @ strip overlong_item) ''</item>''
   \<and> on_line io_none ''/tmp/c'' overlong_item listener_initial =
       listener_initial
         \<lparr>buffer := overlong_item,
          printed := [Metadata_listener_exception ValueError_int_digits]\<rparr>
   \<and> on_line io_none ''/tmp/c'' hello_item
         (on_line io_none ''/tmp/c'' overlong_item listener_initial) =
       listener_initial
         \<lparr>buffer := overlong_item @ hello_item,
          printed := [Metadata_listener_exception ValueError_int_digits,
                      Metadata_listener_exception ValueError_int_digits]\<rparr>"
proof -
  have c: "endswith (buffer listener_initial @ strip overlong_item) ''</item>''"
    by (simp add: listener_initial_simps overlong_facts)
  have one: "on_line io_none ''/tmp/c'' overlong_item listener_initial =
       listener_initial
         \<lparr>buffer := overlong_item,
          printed := [Metadata_listener_exception ValueError_int_digits]\<rparr>"
    using c
    by (simp add: on_line_completed overlong_facts process_item_def io_simps overlong_length
        listener_initial_simps)
  have l: "frame_length 4300 (overlong_item @ hello_item) = Inl ValueError_int_digits"
    by (simp add: frame_length_def hello_after_overlong int_of_str_def many_digits_simps)
  have two: "on_line io_none ''/tmp/c'' hello_item
         (listener_initial
            \<lparr>buffer := overlong_item,
             printed := [Metadata_listener_exception ValueError_int_digits]\<rparr>) =
       listener_initial
         \<lparr>buffer := overlong_item @ hello_item,
          printed := [Metadata_listener_exception ValueError_int_digits,
                      Metadata_listener_exception ValueError_int_digits]\<rparr>"
    using hello_facts(1) hello_after_overlong(2)
    by (simp add: on_line_def Let_def hello_after_overlong(1) process_item_def io_simps l
        listener_initial_simps)
  from c one two show ?thesis by simp
qed


section \<open>Items that are dropped\<close>

text \<open>
  A completed item whose length converts is dropped, leaving the song, the files and
  the printed messages as they were and only emptying the buffer, when no length is
  found (no tag, or no digits in it), when the length is 0, when the code or the base64
  data is not found, or when the code is not one of the four of the table.
\<close>

lemma dropped_frame_changes_nothing:
  assumes "line \<noteq> []"
      and "frame = buffer w @ strip line"
      and "endswith frame ''</item>''"
      and "frame_length (int_max_str_digits io) frame = Inr len"
      and "search_length frame = None \<or> len = 0
           \<or> code_match frame = None \<or> data_match frame = None
           \<or> (\<exists>code. code_match frame = Some code \<and> map_of ESSENTIAL_FIELDS code = None)"
    shows "on_line io cover_dir line w = w\<lparr>buffer := []\<rparr>"
  using assms
  by (auto simp add: on_line_def Let_def process_item_def frame_length_def
      split: option.splits)

lemma zero_length_item_dropped:
  "on_line io ''/tmp/c'' zero_item
     (listener_initial\<lparr>current_song := s\<rparr>) = listener_initial\<lparr>current_song := s\<rparr>"
proof -
  let ?w = "listener_initial\<lparr>current_song := s\<rparr>"
  have f: "strip zero_item = buffer ?w @ strip zero_item"
    by (simp add: listener_initial_simps)
  from dropped_frame_changes_nothing [OF zero_facts(1) f zero_facts(2) item_lengths(2)]
  show ?thesis by (simp add: listener_initial_def)
qed

text \<open>
  C2 fails on the code, by the exception of line 84. An item with a code outside the
  table is to be dropped without an error; when its length is written with 4301 digits
  the conversion raises before the code is looked at. The song is as it
  was, but the exception is printed on line 127, the pipe is closed and opened again
  after the pause, and the item stays in the buffer.
\<close>

theorem overlong_unknown_code_raises:
  "code_match overlong_unknown_item = Some ''6d706572''
   \<and> map_of ESSENTIAL_FIELDS ''6d706572'' = None
   \<and> on_line io_none ''/tmp/c'' overlong_unknown_item listener_initial =
       listener_initial
         \<lparr>buffer := overlong_unknown_item,
          printed := [Metadata_listener_exception ValueError_int_digits]\<rparr>"
proof -
  have c: "endswith (buffer listener_initial @ strip overlong_unknown_item) ''</item>''"
    by (simp add: listener_initial_simps overlong_facts)
  have "on_line io_none ''/tmp/c'' overlong_unknown_item listener_initial =
       listener_initial
         \<lparr>buffer := overlong_unknown_item,
          printed := [Metadata_listener_exception ValueError_int_digits]\<rparr>"
    using c
    by (simp add: on_line_completed overlong_facts process_item_def io_simps overlong_length
        listener_initial_simps)
  then show ?thesis by (simp add: overlong_facts)
qed


section \<open>Text fields\<close>




section \<open>Cover art\<close>





section \<open>When the time stamp moves\<close>

lemma field_cases:
  "map_of ESSENTIAL_FIELDS code = Some field_name \<Longrightarrow>
     field_name \<in> set text_fields \<or> field_name = ''picture_data''"
  by (auto simp add: ESSENTIAL_FIELDS_def text_fields_def split: if_splits)

lemma picture_not_text: "''picture_data'' \<notin> set text_fields"
  by (simp add: text_fields_def)

text \<open>
  C4. On every successful update, of a text field or of the picture, \<^verbatim>\<open>last_update\<close>
  becomes the clock reading of that update; on every other line (one that completes no
  item, an item that is dropped, a length that does not convert, a payload that does
  not decode, an image that is not opened or not saved) the whole song,
  \<^verbatim>\<open>last_update\<close> included, is as before.
\<close>

theorem last_update_only_on_success:
  "(successful_update io cover_dir line w \<longrightarrow>
      current_song (on_line io cover_dir line w) ''last_update''
        = Some (PFloat (time_stamp io)))
   \<and> (\<not> successful_update io cover_dir line w \<longrightarrow>
      current_song (on_line io cover_dir line w) = current_song w)"
proof (intro conjI impI)
  assume s: "successful_update io cover_dir line w"
  then have c: "line \<noteq> []" "endswith (buffer w @ strip line) ''</item>''"
    by (simp_all add: successful_update_def)
  show "current_song (on_line io cover_dir line w) ''last_update''
          = Some (PFloat (time_stamp io))"
    using s
    by (auto simp add: on_line_completed [OF c] successful_update_def process_item_def
        save_picture_def Let_def picture_not_text
        split: option.splits sum.splits save_result.splits)
next
  assume n: "\<not> successful_update io cover_dir line w"
  show "current_song (on_line io cover_dir line w) = current_song w"
  proof (cases "line \<noteq> [] \<and> endswith (buffer w @ strip line) ''</item>''")
    case False
    then show ?thesis by (auto simp add: on_line_def Let_def)
  next
    case True
    then have c: "line \<noteq> []" "endswith (buffer w @ strip line) ''</item>''"
      by simp_all
    show ?thesis
      using n field_cases
      by (auto simp add: on_line_completed [OF c] successful_update_def c process_item_def
          save_picture_def Let_def
          split: option.splits sum.splits save_result.splits)
  qed
qed

theorem last_update_only_on_success_witness:
  "current_song (on_line io_none ''/tmp/c'' hello_item listener_initial) ''last_update''
     = Some (PFloat (17000000001239 / 10000))
   \<and> current_song (on_line io_none ''/tmp/c'' unpadded_item listener_initial)
     = current_song_initial"
proof -
  have s: "successful_update io_none ''/tmp/c'' hello_item listener_initial"
    by (simp add: successful_update_def listener_initial_simps hello_facts item_lengths
        text_fields_def)
  have n: "\<not> successful_update io_none ''/tmp/c'' unpadded_item listener_initial"
    by (simp add: successful_update_def listener_initial_simps unpadded_facts item_lengths
        hello_facts(6))
  from last_update_only_on_success [of io_none "''/tmp/c''" hello_item listener_initial] s
  have a: "current_song (on_line io_none ''/tmp/c'' hello_item listener_initial) ''last_update''
     = Some (PFloat (time_stamp io_none))"
    by blast
  from last_update_only_on_success [of io_none "''/tmp/c''" unpadded_item listener_initial] n
  have b: "current_song (on_line io_none ''/tmp/c'' unpadded_item listener_initial)
     = current_song listener_initial"
    by blast
  from a b show ?thesis by (simp add: io_simps listener_initial_simps)
qed


section \<open>Failures that are caught\<close>

text \<open>
  C5. Take a completed item that reaches the decoder: its length is above 0 and its
  code is one of the table. If the base64 payload does not decode, the exception is
  printed (line 123); if it is a picture whose bytes the image library does not open,
  or whose image it does not save, the exception is printed (line 115). In each case
  no exception leaves the handler, the song with its picture path and time stamp is
  as before, and the buffer is empty for the next item. After a failed save the file
  of that name is what the library left of it.
\<close>

theorem failures_keep_the_song:
  assumes line: "line \<noteq> []"
      and frame: "frame = buffer w @ strip line"
      and complete: "endswith frame ''</item>''"
      and len: "frame_length (int_max_str_digits io) frame = Inr len"
      and pos: "0 < len"
      and coded: "code_match frame = Some code"
      and field: "map_of ESSENTIAL_FIELDS code = Some field_name"
      and payload: "data_match frame = Some data_b64"
    shows "(\<forall>e. b64decode data_b64 = Inl e \<longrightarrow>
              on_line io cover_dir line w =
                w\<lparr>buffer := [], printed := printed w @ [Exception_decoding_item e]\<rparr>)
         \<and> (\<forall>bs e. field_name = ''picture_data'' \<and> b64decode data_b64 = Inr bs
                \<and> Image_open io bs = Inl e \<longrightarrow>
              on_line io cover_dir line w =
                w\<lparr>buffer := [], printed := printed w @ [Error_saving_image e]\<rparr>)
         \<and> (\<forall>bs img e left. field_name = ''picture_data'' \<and> b64decode data_b64 = Inr bs
                \<and> Image_open io bs = Inr img
                \<and> Image_save io img (picture_path io cover_dir img)
                     (files w (picture_path io cover_dir img)) = Save_failed e left \<longrightarrow>
              on_line io cover_dir line w =
                w\<lparr>buffer := [], printed := printed w @ [Error_saving_image e],
                  files := (files w)(picture_path io cover_dir img := left)\<rparr>)"
  using assms
  by (simp add: on_line_completed process_item_def save_picture_def Let_def)

theorem failures_keep_the_song_witness:
  "on_line io_none ''/tmp/c'' unpadded_item listener_initial =
     listener_initial\<lparr>printed := [Exception_decoding_item Binascii_Error_padding]\<rparr>
   \<and> on_line io_none ''/tmp/c'' png_item listener_initial =
     listener_initial\<lparr>printed := [Error_saving_image (External ''UnidentifiedImageError'')]\<rparr>
   \<and> on_line io_disk_full ''/tmp/c'' png_item listener_initial =
     listener_initial
       \<lparr>printed := [Error_saving_image (External ''OSError: No space left on device'')]\<rparr>"
proof -
  have f: "strip unpadded_item = buffer listener_initial @ strip unpadded_item"
    and g: "strip png_item = buffer listener_initial @ strip png_item"
    by (simp_all add: listener_initial_simps)
  have p5: "(0::nat) < 5" and p8: "(0::nat) < 8" by simp_all
  note u = failures_keep_the_song [OF unpadded_facts(1) f unpadded_facts(2) item_lengths(3) p5
      unpadded_facts(4) hello_facts(6) unpadded_facts(5), of io_none "''/tmp/c''",
      THEN conjunct1, rule_format, OF unpadded_facts(6)]
  have o: "''picture_data'' = ''picture_data'' \<and> b64decode ''iVBORw0KGgo='' = Inr [137, 80, 78, 71, 13, 10, 26, 10]
      \<and> Image_open io_none [137, 80, 78, 71, 13, 10, 26, 10] = Inl (External ''UnidentifiedImageError'')"
    by (simp add: png_facts(7) io_simps)
  note p = failures_keep_the_song [OF png_facts(1) g png_facts(2) item_lengths(4) p8
      png_facts(4,6,5), of io_none "''/tmp/c''", THEN conjunct2, THEN conjunct1,
      rule_format, OF o]
  let ?img = "Image (Some ''PNG'') [137, 80, 78, 71, 13, 10, 26, 10]"
  have s: "''picture_data'' = ''picture_data'' \<and> b64decode ''iVBORw0KGgo='' = Inr [137, 80, 78, 71, 13, 10, 26, 10]
      \<and> Image_open io_disk_full [137, 80, 78, 71, 13, 10, 26, 10] = Inr ?img
      \<and> Image_save io_disk_full ?img (picture_path io_disk_full ''/tmp/c'' ?img)
           (files listener_initial (picture_path io_disk_full ''/tmp/c'' ?img))
         = Save_failed (External ''OSError: No space left on device'') None"
    by (simp add: png_facts(7) io_simps)
  note q = failures_keep_the_song [OF png_facts(1) g png_facts(2) item_lengths(4) p8
      png_facts(4,6,5), of io_disk_full "''/tmp/c''", THEN conjunct2, THEN conjunct2,
      rule_format, OF s]
  from u p q show ?thesis
    by (simp add: listener_initial_def)
qed


section \<open>Which files a save touches\<close>
















lemma buffer_save_picture: "buffer (save_picture io cover_dir bs w) = buffer w"
  by (simp add: save_picture_def Let_def split: sum.splits save_result.splits)







section \<open>The most recent cover\<close>









section \<open>Payloads with characters outside the base64 alphabet\<close>













section \<open>Snapshots of the shared song\<close>

lemma song_after_Suc:
  "n < length us \<Longrightarrow> song_after s us (Suc n) = apply_update (song_after s us n) (us ! n)"
  by (simp add: song_after_def take_Suc_conv_app_nth)

lemma consistent_initial: "consistent s us (shared_initial s)"
  by (simp add: consistent_def shared_initial_def song_after_def)

lemma consistent_listener:
  assumes "consistent s us c"
  shows "consistent s us (step us Listener c)"
proof -
  have "writer_at c \<le> 3" using assms by (simp add: consistent_def)
  then consider "writer_at c = 0" | "writer_at c = 1" | "writer_at c = 2" | "writer_at c = 3"
    by linarith
  then show ?thesis
  proof cases
    case 1
    with assms show ?thesis by (auto simp add: consistent_def split: option.splits)
  next
    case 2
    with assms show ?thesis
      by (auto simp add: consistent_def split: option.splits prod.splits)
  next
    case 3
    with assms have f: "finished c < length us" by (simp add: consistent_def)
    obtain k v t where u: "us ! finished c = (k, v, t)" by (cases "us ! finished c")
    from 3 assms u have "song c = (song_after s us (finished c))(k \<mapsto> v)"
      by (simp add: consistent_def)
    then have "(song c)(''last_update'' \<mapsto> PFloat t) = song_after s us (Suc (finished c))"
      using f u by (simp add: song_after_Suc apply_update_def)
    with 3 assms u show ?thesis
      by (auto simp add: consistent_def split: option.splits)
  next
    case 4
    with assms show ?thesis
      by (auto simp add: consistent_def split: option.splits)
  qed
qed

lemma consistent_ui:
  assumes "consistent s us c"
  shows "consistent s us (step us Ui c)"
proof (cases "reader_at c")
  case None
  with assms show ?thesis by (auto simp add: consistent_def)
next
  case (Some vs)
  with assms have l: "lock c = Some Ui" and w: "writer_at c = 0"
    and v: "vs = map (song c) (take (length vs) refresh_keys)"
    and n: "length vs \<le> length refresh_keys"
    by (auto simp add: consistent_def)
  show ?thesis
  proof (cases "length vs < length refresh_keys")
    case True
    then have "map (song c) (take (Suc (length vs)) refresh_keys)
                 = map (song c) (take (length vs) refresh_keys) @ [song c (refresh_keys ! length vs)]"
      by (simp add: take_Suc_conv_app_nth)
    with v have "vs @ [song c (refresh_keys ! length vs)]
                   = map (song c) (take (Suc (length vs)) refresh_keys)"
      by simp
    with True Some assms show ?thesis
      by (auto simp add: consistent_def)
  next
    case False
    with n have "length vs = length refresh_keys" by simp
    with v have "vs = map (song c) refresh_keys" by simp
    moreover from w assms have "song c = song_after s us (finished c)"
      and "finished c \<le> length us"
      by (simp_all add: consistent_def)
    ultimately have "\<exists>n \<le> length us. vs = map (song_after s us n) refresh_keys" by auto
    with False Some assms show ?thesis
      by (auto simp add: consistent_def)
  qed
qed

lemma consistent_run:
  "consistent s us c \<Longrightarrow> consistent s us (run us schedule c)"
proof (induction schedule arbitrary: c)
  case Nil
  then show ?case by simp
next
  case (Cons t schedule)
  have "consistent s us (step us t c)"
    using Cons.prems by (cases t) (simp_all only: consistent_listener consistent_ui)
  then have "consistent s us (run us schedule (step us t c))" by (rule Cons.IH)
  then show ?case by (simp only: run.simps)
qed

text \<open>
  C9. In every run, whatever the order in which the two threads step, each snapshot the
  user interface completes holds the five values of the song as it is after a whole
  number of updates: for some \<open>n\<close>, the first \<open>n\<close> updates each with its value and its
  time stamp, and nothing of the next one.
\<close>

theorem snapshots_are_whole:
  "\<forall>vs \<in> set (snapshots (run us schedule (shared_initial s))).
     \<exists>n \<le> length us. vs = map (song_after s us n) refresh_keys"
  using consistent_run [OF consistent_initial, of s us schedule]
  by (simp add: consistent_def)

lemma example_run:
  "snapshots (run shared_example example_schedule (shared_initial current_song_initial))
   = [[Some PNone, Some PNone, Some PNone, Some PNone, Some (PFloat 0)],
      [Some (PStr (unicode_of ''Hello'')), Some PNone, Some PNone, Some PNone,
       Some (PFloat 7)]]"
  by code_simp

theorem snapshots_are_whole_witness:
  "snapshots (run shared_example example_schedule (shared_initial current_song_initial))
     = [[Some PNone, Some PNone, Some PNone, Some PNone, Some (PFloat 0)],
        [Some (PStr (unicode_of ''Hello'')), Some PNone, Some PNone, Some PNone,
         Some (PFloat 7)]]
   \<and> (\<exists>n \<le> length shared_example.
         [Some (PStr (unicode_of ''Hello'')), Some PNone, Some PNone, Some PNone,
          Some (PFloat 7)]
         = map (song_after current_song_initial shared_example n) refresh_keys)"
proof -
  note t = snapshots_are_whole [of shared_example example_schedule current_song_initial]
  have "[Some (PStr (unicode_of ''Hello'')), Some PNone, Some PNone, Some PNone,
          Some (PFloat 7)]
        \<in> set (snapshots (run shared_example example_schedule
                   (shared_initial current_song_initial)))"
    by (simp only: example_run) simp
  with t have "\<exists>n \<le> length shared_example.
         [Some (PStr (unicode_of ''Hello'')), Some PNone, Some PNone, Some PNone,
          Some (PFloat 7)]
         = map (song_after current_song_initial shared_example n) refresh_keys"
    by blast
  with example_run show ?thesis by blast
qed

end
